theory Spec2Isabelle
  imports Main "HOL-Library.Word"
begin

section \<open>The JNI bridge of fcitx5-android (native-lib.cpp)\<close>

text \<open>
  A shallow embedding of \<^verbatim>\<open>app/src/main/cpp/native-lib.cpp\<close>: the log relay thread, the
  process-wide engine pointers, \<^verbatim>\<open>startupFcitx\<close> and the guarded JNI entry points, and the
  four callbacks that marshal engine notifications to the host's \<^verbatim>\<open>handleFcitxEvent\<close>.

  Strings are byte lists (\<^typ>\<open>string\<close>). The globals of the translation unit are one record
  that every operation takes and returns. The engine (\<^verbatim>\<open>fcitx::Instance\<close>,
  \<^verbatim>\<open>fcitx::EventDispatcher\<close>, the \<^verbatim>\<open>androidfrontend\<close> addon) is a library the file links
  against; it is represented by records that keep what the bridge does to it.
\<close>

subsection \<open>C strings\<close>

text \<open>
  A \<^verbatim>\<open>const char*\<close> is read up to its first NUL byte. \<^verbatim>\<open>std::string::c_str()\<close> handed to a
  function that takes a \<^verbatim>\<open>const char*\<close> therefore passes the string's bytes before its first
  NUL.
\<close>

definition c_str :: "string \<Rightarrow> string" where
  "c_str s = takeWhile (\<lambda>c. c \<noteq> CHR 0x00) s"

subsection \<open>The Android log sink\<close>

datatype LogPriority = ANDROID_LOG_DEBUG

type_synonym log_sink = "(LogPriority \<times> string \<times> string) list"

text \<open>\<^verbatim>\<open>__android_log_write(prio, tag, text)\<close>: tag and text are C strings.\<close>

definition android_log_write :: "LogPriority \<Rightarrow> string \<Rightarrow> string \<Rightarrow> log_sink \<Rightarrow> log_sink" where
  "android_log_write prio tag text sink = sink @ [(prio, c_str tag, c_str text)]"

subsection \<open>The log relay (logger\_thread, lines 17-27)\<close>

text \<open>
  \<^verbatim>\<open>read(pfd[0], buf, sizeof buf - 1)\<close> on the pipe: the kernel hands over the bytes that are
  there when the call returns, at most \<open>count\<close> of them. \<open>avail\<close> is the number of bytes
  in the pipe at that moment; the result is the bytes read and the bytes left in the pipe.
  A result of no bytes is \<^verbatim>\<open>read\<close> returning 0.
\<close>

definition read_pipe :: "nat \<Rightarrow> nat \<Rightarrow> string \<Rightarrow> string \<times> string" where
  "read_pipe avail count pipe = (take (min avail count) pipe, drop (min avail count) pipe)"

text \<open>
  The loop body, lines 21-24, for a buffer holding \<open>read_size > 0\<close> bytes: drop one trailing
  newline, write the terminator, and pass the buffer to the log as a C string.
\<close>

definition relay_buffer :: "string \<Rightarrow> log_sink \<Rightarrow> log_sink" where
  "relay_buffer buf sink =
     (let read_size = length buf;
          read_size = (if buf ! (read_size - 1) = CHR 0x0A then read_size - 1 else read_size)
      in android_log_write ANDROID_LOG_DEBUG ''fcitx5'' (take read_size buf) sink)"

text \<open>
  The thread's loop. The first argument lists, for each call of \<^verbatim>\<open>read\<close> that returns, how
  many bytes the pipe held; the list is the fuel of the loop, which in the program blocks in
  \<^verbatim>\<open>read\<close> when the pipe is empty. The buffer has 128 bytes and \<^verbatim>\<open>read\<close> is asked for 127.
\<close>

fun logger_thread :: "nat list \<Rightarrow> string \<Rightarrow> log_sink \<Rightarrow> log_sink" where
  "logger_thread [] pipe sink = sink"
| "logger_thread (avail # reads) pipe sink =
     (case read_pipe avail 127 pipe of
        (buf, pipe') \<Rightarrow>
          if 0 < length buf then logger_thread reads pipe' (relay_buffer buf sink)
          else sink)"

text \<open>The buffers that the successive reads of the loop return, up to the first empty one.\<close>

fun reads_of :: "nat list \<Rightarrow> string \<Rightarrow> string list" where
  "reads_of [] pipe = []"
| "reads_of (avail # reads) pipe =
     (case read_pipe avail 127 pipe of
        (buf, pipe') \<Rightarrow> if 0 < length buf then buf # reads_of reads pipe' else [])"

text \<open>
  The relay as the specification words it, for comparison: the input is split at every
  newline, the newline is dropped, and each resulting line is one message.
\<close>

fun spec_split_lines :: "string \<Rightarrow> string \<Rightarrow> string list" where
  "spec_split_lines line [] = (if line = [] then [] else [line])"
| "spec_split_lines line (c # cs) =
     (if c = CHR 0x0A then line # spec_split_lines [] cs
      else spec_split_lines (line @ [c]) cs)"

definition spec_relay :: "string \<Rightarrow> log_sink" where
  "spec_relay pipe = map (\<lambda>line. (ANDROID_LOG_DEBUG, ''fcitx5'', line)) (spec_split_lines [] pipe)"

subsection \<open>Keys and the bytes of a jchar\<close>

text \<open>
  Modelled from the spec: \<^verbatim>\<open>fcitx::Key\<close> is declared by the engine's headers, not by this file.
  A key is represented by the key descriptor its constructor \<^verbatim>\<open>Key(const char*)\<close> was given,
  so two keys are equal when they were parsed from the same descriptor.
\<close>

datatype Key = Key string

text \<open>
  The object representation of a \<^verbatim>\<open>jchar\<close> (an unsigned 16-bit value) on the little-endian
  ABIs Android runs on: the low byte first.
\<close>

definition jchar_bytes :: "16 word \<Rightarrow> string" where
  "jchar_bytes c = [char_of (unat c mod 256), char_of (unat c div 256)]"

text \<open>
  \<^verbatim>\<open>(const char*) &c\<close> read as a C string: the two bytes of \<open>c\<close>, then the bytes \<open>mem\<close> that
  follow the parameter in memory, up to the first NUL.
\<close>

definition jchar_as_c_str :: "16 word \<Rightarrow> string \<Rightarrow> string" where
  "jchar_as_c_str c mem = c_str (jchar_bytes c @ mem)"

subsection \<open>Marshalling notifications to the host (lines 97-125)\<close>

text \<open>
  The ways native code ends other than by returning to its caller: a negative array size
  handed to JNI, a call through a null pointer, the deletion of an object that has been
  deleted, a C++ exception that leaves the JNI function, and a second \<^verbatim>\<open>startupFcitx\<close>
  that runs beside the first on the same globals.
\<close>

datatype jni_fault =
    NegativeArraySize
  | NullDereference
  | DoubleDelete
  | UncaughtThrow
  | RacingStartup

type_synonym jobjectArray = "string option list"

text \<open>
  \<^verbatim>\<open>NewObjectArray(len, stringClass, nullptr)\<close>: \<open>len\<close> elements, all null; a negative
  size gives no array. \<^verbatim>\<open>SetObjectArrayElement\<close> stores within the bounds and stores nothing
  outside them. \<^verbatim>\<open>NewStringUTF\<close> builds the host string from a C string; a host string is
  represented by the bytes it was built from.
\<close>

definition NewObjectArray :: "int \<Rightarrow> jni_fault + jobjectArray" where
  "NewObjectArray len = (if len < 0 then Inl NegativeArraySize else Inr (replicate (nat len) None))"

definition SetObjectArrayElement :: "jobjectArray \<Rightarrow> nat \<Rightarrow> string \<Rightarrow> jobjectArray" where
  "SetObjectArrayElement arr i v = (if i < length arr then arr[i := Some v] else arr)"

definition NewStringUTF :: "string \<Rightarrow> string" where
  "NewStringUTF bytes = c_str bytes"

text \<open>The range-for of lines 103-106, with its running index \<open>i\<close>.\<close>

fun fill_vararg :: "string list \<Rightarrow> nat \<Rightarrow> jobjectArray \<Rightarrow> jobjectArray" where
  "fill_vararg [] i vararg = vararg"
| "fill_vararg (s # rest) i vararg =
     fill_vararg rest (Suc i) (SetObjectArrayElement vararg i (NewStringUTF s))"

text \<open>
  The four lambdas. Each returns the arguments of its call of \<^verbatim>\<open>handleFcitxEvent\<close>: the
  kind and the array. \<^verbatim>\<open>int size = candidateList.size()\<close> converts a \<^verbatim>\<open>size_t\<close> to a 32-bit
  \<^verbatim>\<open>int\<close>.
\<close>

type_synonym host_event = "int \<times> jobjectArray"

definition candidateListCallback :: "string list \<Rightarrow> jni_fault + host_event" where
  "candidateListCallback candidateList =
     (let size_int = sint (word_of_nat (length candidateList) :: 32 word)
      in case NewObjectArray size_int of
           Inl e \<Rightarrow> Inl e
         | Inr vararg \<Rightarrow> Inr (0, fill_vararg candidateList 0 vararg))"

definition commitStringCallback :: "string \<Rightarrow> jni_fault + host_event" where
  "commitStringCallback str =
     (case NewObjectArray 1 of
        Inl e \<Rightarrow> Inl e
      | Inr vararg \<Rightarrow> Inr (1, SetObjectArrayElement vararg 0 (NewStringUTF str)))"

definition preeditCallback :: "string \<Rightarrow> string \<Rightarrow> jni_fault + host_event" where
  "preeditCallback preedit clientPreedit =
     (case NewObjectArray 2 of
        Inl e \<Rightarrow> Inl e
      | Inr vararg \<Rightarrow>
          Inr (2, SetObjectArrayElement
                    (SetObjectArrayElement vararg 0 (NewStringUTF preedit))
                    1 (NewStringUTF clientPreedit)))"

definition inputPanelAuxCallback :: "string \<Rightarrow> string \<Rightarrow> jni_fault + host_event" where
  "inputPanelAuxCallback auxUp auxDown =
     (case NewObjectArray 2 of
        Inl e \<Rightarrow> Inl e
      | Inr vararg \<Rightarrow>
          Inr (3, SetObjectArrayElement
                    (SetObjectArrayElement vararg 0 (NewStringUTF auxUp))
                    1 (NewStringUTF auxDown)))"

text \<open>
  What the addon emits, and the callback the addon invokes for it (the registration of
  lines 142-145 pairs each setter with its lambda).
\<close>

datatype NotificationEvent =
    CandidateList "string list"
  | CommitString string
  | Preedit string string
  | AuxText string string

fun notify :: "NotificationEvent \<Rightarrow> jni_fault + host_event" where
  "notify (CandidateList candidateList) = candidateListCallback candidateList"
| "notify (CommitString str) = commitStringCallback str"
| "notify (Preedit preedit clientPreedit) = preeditCallback preedit clientPreedit"
| "notify (AuxText auxUp auxDown) = inputPanelAuxCallback auxUp auxDown"

text \<open>
  The encoding as the specification words it, for comparison: the kind, and the strings the
  addon produced, unchanged and in order.
\<close>

fun spec_encoding :: "NotificationEvent \<Rightarrow> host_event" where
  "spec_encoding (CandidateList candidateList) = (0, map Some candidateList)"
| "spec_encoding (CommitString str) = (1, [Some str])"
| "spec_encoding (Preedit preedit clientPreedit) = (2, [Some preedit, Some clientPreedit])"
| "spec_encoding (AuxText auxUp auxDown) = (3, [Some auxUp, Some auxDown])"

fun payload :: "NotificationEvent \<Rightarrow> string list" where
  "payload (CandidateList candidateList) = candidateList"
| "payload (CommitString str) = [str]"
| "payload (Preedit preedit clientPreedit) = [preedit, clientPreedit]"
| "payload (AuxText auxUp auxDown) = [auxUp, auxDown]"

subsection \<open>The engine objects the bridge owns\<close>

type_synonym environment = "string \<rightharpoonup> string"

text \<open>\<^verbatim>\<open>fcitx::ICUUID\<close> is \<^verbatim>\<open>std::array<uint8_t, 16>\<close>.\<close>

type_synonym ICUUID = "8 word list"

text \<open>
  The closures handed to \<^verbatim>\<open>EventDispatcher::schedule\<close>, one constructor per lambda of the
  file, with the values the lambda captures by copy: the setup of lines 134-149, the exit
  of lines 179-182, the key event of lines 192-194 and 202-204, the selection of lines
  212-214 and the reset of lines 228-230.
\<close>

datatype WorkItem =
    SetupItem
  | ExitItem
  | KeyEventItem Key
  | SelectCandidateItem int
  | ResetInputPanelItem

datatype FrontendCallback =
    CandidateListCallback
  | CommitStringCallback
  | PreeditCallback
  | InputPanelAuxCallback

datatype FrontendCall =
    KeyEvent ICUUID Key bool
  | SelectCandidate ICUUID int
  | ResetInputPanel ICUUID

text \<open>
  Modelled from the spec: \<^verbatim>\<open>fcitx::Instance\<close> and the \<^verbatim>\<open>androidfrontend\<close> addon it loads are
  declared by the engine's headers. The record keeps what the bridge does to them: the
  environment the constructor found (the engine resolves its search paths at construction),
  whether the default loader is registered, the input methods and the default input method
  of the current group, whether \<^verbatim>\<open>exit()\<close> was requested, and for the addon the callbacks
  registered, the input contexts created and the calls received.
\<close>

record Instance =
  construct_env :: environment
  default_loader :: bool
  inputMethodList :: "string list"
  defaultInputMethod :: string
  exit_requested :: bool
  callbacks :: "FrontendCallback list"
  contexts :: "ICUUID list"
  frontend_calls :: "FrontendCall list"

definition make_Instance :: "environment \<Rightarrow> Instance" where
  "make_Instance env =
     \<lparr> construct_env = env, default_loader = False, inputMethodList = [],
       defaultInputMethod = [], exit_requested = False, callbacks = [], contexts = [],
       frontend_calls = [] \<rparr>"

text \<open>
  Modelled from the spec: \<^verbatim>\<open>fcitx::EventDispatcher\<close>, the queue of work items bound to the
  instance's event loop. \<^verbatim>\<open>schedule\<close> enqueues and returns; the event loop runs the items in
  submission order while the dispatcher is attached.
\<close>

record EventDispatcher =
  attached :: bool
  queue :: "WorkItem list"

definition make_EventDispatcher :: EventDispatcher where
  "make_EventDispatcher = \<lparr> attached = False, queue = [] \<rparr>"

definition attach :: "EventDispatcher \<Rightarrow> EventDispatcher" where
  "attach d = d\<lparr>attached := True\<rparr>"

definition detach :: "EventDispatcher \<Rightarrow> EventDispatcher" where
  "detach d = d\<lparr>attached := False\<rparr>"

definition schedule :: "WorkItem \<Rightarrow> EventDispatcher \<Rightarrow> EventDispatcher" where
  "schedule item d = d\<lparr>queue := queue d @ [item]\<rparr>"

text \<open>
  The addon \<^verbatim>\<open>p_frontend\<close> points to lives inside the instance, whose addon manager owns
  it (line 141). \<^verbatim>\<open>p_frontend\<close> is a \<^verbatim>\<open>std::unique_ptr\<close> (line 48), which deletes what it
  holds when it is reset: after line 147 the addon has two owners.
\<close>

datatype AddonInstance = AndroidFrontend

subsection \<open>The globals (lines 46-49) and what the process shares with them\<close>

record globals =
  p_instance :: "Instance option"
  p_dispatcher :: "EventDispatcher option"
  p_frontend :: "AddonInstance option"
  p_uuid :: ICUUID
  environ :: environment
  logcat :: log_sink
  host_events :: "host_event list"

text \<open>The state at load time: null pointers and a zero-initialised \<^verbatim>\<open>p_uuid\<close>.\<close>

definition zero_uuid :: ICUUID where
  "zero_uuid = replicate 16 0"

definition initial_globals :: globals where
  "initial_globals =
     \<lparr> p_instance = None, p_dispatcher = None, p_frontend = None, p_uuid = zero_uuid,
       environ = Map.empty, logcat = [], host_events = [] \<rparr>"

definition jniLog :: "string \<Rightarrow> globals \<Rightarrow> globals" where
  "jniLog s g = g\<lparr>logcat := android_log_write ANDROID_LOG_DEBUG ''JNI'' s (logcat g)\<rparr>"

definition setenv :: "string \<Rightarrow> string \<Rightarrow> globals \<Rightarrow> globals" where
  "setenv name val g = g\<lparr>environ := (environ g)(c_str name \<mapsto> c_str val)\<rparr>"

text \<open>
  Lines 51-56. Line 53 destroys the instance and, with it, the addons it owns. Line 54
  destroys the dispatcher. Line 55 makes \<^verbatim>\<open>p_frontend\<close> delete what it holds: when it is
  set, that is the addon line 53 has destroyed already.
\<close>

definition resetGlobalPointers :: "globals \<Rightarrow> jni_fault + globals" where
  "resetGlobalPointers g =
     (let g = jniLog ''resetGlobalPointers'' g;
          g = g\<lparr>p_instance := None\<rparr>;
          g = g\<lparr>p_dispatcher := None\<rparr>
      in case p_frontend g of
           None \<Rightarrow> Inr g
         | Some addon \<Rightarrow> Inl DoubleDelete)"

text \<open>
  \<^verbatim>\<open>p_dispatcher->schedule(item)\<close> on the global. Every call site runs after the dispatcher
  was constructed or after the guard found it non-null; on a null pointer nothing is stored.
\<close>

definition dispatcher_schedule :: "WorkItem \<Rightarrow> globals \<Rightarrow> globals" where
  "dispatcher_schedule item g =
     (case p_dispatcher g of
        None \<Rightarrow> g
      | Some d \<Rightarrow> g\<lparr>p_dispatcher := Some (schedule item d)\<rparr>)"

subsection \<open>startupFcitx (lines 70-164)\<close>

text \<open>
  How \<^verbatim>\<open>p_instance->exec()\<close> ends: it returns a code, or throws
  \<^verbatim>\<open>fcitx::InstanceQuietQuit\<close>, or throws another \<^verbatim>\<open>std::exception\<close> whose \<^verbatim>\<open>what()\<close> is
  the string, or throws something that is not a \<^verbatim>\<open>std::exception\<close>.
\<close>

datatype ExecResult = Returned int | InstanceQuietQuit | StdException string | OtherThrow

text \<open>
  Lines 75-149: everything between the guard and the \<^verbatim>\<open>try\<close>. The three strings are what
  \<^verbatim>\<open>GetStringUTFChars\<close> returns for the three arguments.
\<close>

definition startup_prepare :: "string \<Rightarrow> string \<Rightarrow> string \<Rightarrow> globals \<Rightarrow> globals" where
  "startup_prepare app_data app_lib ext_data g =
     (let g = jniLog ''startupFcitx'' g;
          g = setenv ''SKIP_FCITX_PATH'' ''true'' g;
          libime_data = c_str app_data @ ''/fcitx5/libime'';
          g = setenv ''HOME'' ext_data g;
          g = setenv ''XDG_DATA_DIRS'' app_data g;
          g = setenv ''XDG_CONFIG_HOME'' ext_data g;
          g = setenv ''XDG_DATA_HOME'' ext_data g;
          g = setenv ''FCITX_ADDON_DIRS'' app_lib g;
          g = setenv ''LIBIME_MODEL_DIRS'' libime_data g;
          g = setenv ''LIBIME_INSTALL_PKGDATADIR'' libime_data g;
          g = g\<lparr>p_instance := Some (make_Instance (environ g))\<rparr>;
          g = g\<lparr>p_instance := map_option (\<lambda>i. i\<lparr>default_loader := True\<rparr>) (p_instance g)\<rparr>;
          g = g\<lparr>p_dispatcher := Some make_EventDispatcher\<rparr>;
          g = g\<lparr>p_dispatcher := map_option attach (p_dispatcher g)\<rparr>;
          g = dispatcher_schedule SetupItem g
      in g)"

text \<open>
  The environment after the eight \<^verbatim>\<open>setenv\<close> calls of lines 77-91, in one expression.
\<close>

definition startup_env :: "string \<Rightarrow> string \<Rightarrow> string \<Rightarrow> environment \<Rightarrow> environment" where
  "startup_env app_data app_lib ext_data env =
     env(''SKIP_FCITX_PATH'' \<mapsto> ''true'',
         ''HOME'' \<mapsto> c_str ext_data,
         ''XDG_DATA_DIRS'' \<mapsto> c_str app_data,
         ''XDG_CONFIG_HOME'' \<mapsto> c_str ext_data,
         ''XDG_DATA_HOME'' \<mapsto> c_str ext_data,
         ''FCITX_ADDON_DIRS'' \<mapsto> c_str app_lib,
         ''LIBIME_MODEL_DIRS'' \<mapsto> c_str app_data @ ''/fcitx5/libime'',
         ''LIBIME_INSTALL_PKGDATADIR'' \<mapsto> c_str app_data @ ''/fcitx5/libime'')"

text \<open>
  Lines 151-163: the \<^verbatim>\<open>try\<close> around \<^verbatim>\<open>exec()\<close>, given how \<^verbatim>\<open>exec()\<close> ended. There is
  no \<^verbatim>\<open>catch (...)\<close>: what is not a \<^verbatim>\<open>std::exception\<close> passes both handlers and leaves
  the function, with no reset and no status code.
\<close>

fun startup_finish :: "ExecResult \<Rightarrow> globals \<Rightarrow> jni_fault + int \<times> globals" where
  "startup_finish (Returned code) g =
     (case resetGlobalPointers g of
        Inl fault \<Rightarrow> Inl fault
      | Inr g' \<Rightarrow> Inr (code, g'))"
| "startup_finish InstanceQuietQuit g =
     (case resetGlobalPointers g of
        Inl fault \<Rightarrow> Inl fault
      | Inr g' \<Rightarrow> Inr (0, g'))"
| "startup_finish (StdException what) g =
     (case resetGlobalPointers (jniLog what (jniLog ''fcitx exited with exception:'' g)) of
        Inl fault \<Rightarrow> Inl fault
      | Inr g' \<Rightarrow> Inr (1, g'))"
| "startup_finish OtherThrow g = Inl UncaughtThrow"

text \<open>
  The whole function. \<open>exec\<close> is the blocking run of the engine on the calling thread:
  what happens to the globals while it runs and how it ends, or \<open>None\<close> when it never
  gives control back. The result is \<open>None\<close> then; otherwise it is the status code
  returned with the globals at that moment, or the fault the call ends in.
\<close>

definition startupFcitx ::
  "(globals \<Rightarrow> (ExecResult \<times> globals) option) \<Rightarrow> string \<Rightarrow> string \<Rightarrow> string \<Rightarrow> globals
     \<Rightarrow> (jni_fault + int \<times> globals) option" where
  "startupFcitx exec app_data app_lib ext_data g =
     (if p_instance g \<noteq> None then Some (Inr (2, jniLog ''fcitx already running'' g))
      else case exec (startup_prepare app_data app_lib ext_data g) of
             None \<Rightarrow> None
           | Some (r, g') \<Rightarrow> Some (startup_finish r g'))"

subsection \<open>The guarded entry points (lines 166-231)\<close>

text \<open>The condition of \<^verbatim>\<open>DO_IF_NOT_RUNNING\<close>.\<close>

definition not_running :: "globals \<Rightarrow> bool" where
  "not_running g = (p_instance g = None \<or> p_dispatcher g = None \<or> p_frontend g = None)"

definition exitFcitx :: "globals \<Rightarrow> globals" where
  "exitFcitx g =
     (if not_running g then jniLog ''fcitx is not running!'' g
      else dispatcher_schedule ExitItem (jniLog ''shutting down fcitx'' g))"

definition sendKeyToFcitxString :: "string \<Rightarrow> globals \<Rightarrow> globals" where
  "sendKeyToFcitxString k g =
     (if not_running g then jniLog ''fcitx is not running!'' g
      else dispatcher_schedule (KeyEventItem (Key (c_str k))) g)"

text \<open>\<open>mem\<close> is the memory that follows the parameter \<open>c\<close>.\<close>

definition sendKeyToFcitxChar :: "16 word \<Rightarrow> string \<Rightarrow> globals \<Rightarrow> globals" where
  "sendKeyToFcitxChar c mem g =
     (if not_running g then jniLog ''fcitx is not running!'' g
      else dispatcher_schedule (KeyEventItem (Key (jchar_as_c_str c mem))) g)"

text \<open>\<^verbatim>\<open>std::to_string\<close> of an \<^verbatim>\<open>int\<close>: decimal digits, with a minus sign below zero.\<close>

fun digits10 :: "nat \<Rightarrow> string" where
  "digits10 n =
     (if n < 10 then [''0123456789'' ! n]
      else digits10 (n div 10) @ [''0123456789'' ! (n mod 10)])"

declare digits10.simps [simp del]

definition to_string :: "int \<Rightarrow> string" where
  "to_string i = (if i < 0 then CHR ''-'' # digits10 (nat (- i)) else digits10 (nat i))"

definition selectCandidate :: "int \<Rightarrow> globals \<Rightarrow> globals" where
  "selectCandidate idx g =
     (if not_running g then jniLog ''fcitx is not running!'' g
      else dispatcher_schedule (SelectCandidateItem idx)
             (jniLog (''select candidate #'' @ to_string idx) g))"

text \<open>\<open>answer\<close> is what the addon's \<^verbatim>\<open>isInputPanelEmpty\<close> returns when it is asked.\<close>

definition isInputPanelEmpty :: "bool \<Rightarrow> globals \<Rightarrow> bool \<times> globals" where
  "isInputPanelEmpty answer g =
     (if not_running g then (True, jniLog ''fcitx is not running!'' g)
      else (answer, g))"

definition resetInputPanel :: "globals \<Rightarrow> globals" where
  "resetInputPanel g =
     (if not_running g then jniLog ''fcitx is not running!'' g
      else dispatcher_schedule ResetInputPanelItem g)"

subsection \<open>The work items, run by the event loop\<close>

text \<open>
  The body of each scheduled lambda. The lambdas read the global pointers when they run;
  a null pointer there is a fault. \<open>uuid\<close> is what the addon's \<^verbatim>\<open>createInputContext\<close>
  returns when the setup item asks for a context.
\<close>

fun run_item :: "ICUUID \<Rightarrow> WorkItem \<Rightarrow> globals \<Rightarrow> jni_fault + globals" where
  "run_item uuid SetupItem g =
     (case p_instance g of
        None \<Rightarrow> Inl NullDereference
      | Some i \<Rightarrow>
          (let i = i\<lparr>inputMethodList := [''pinyin''], defaultInputMethod := []\<rparr>;
               i = i\<lparr>callbacks := callbacks i @ [CandidateListCallback]\<rparr>;
               i = i\<lparr>callbacks := callbacks i @ [CommitStringCallback]\<rparr>;
               i = i\<lparr>callbacks := callbacks i @ [PreeditCallback]\<rparr>;
               i = i\<lparr>callbacks := callbacks i @ [InputPanelAuxCallback]\<rparr>;
               i = i\<lparr>contexts := contexts i @ [uuid]\<rparr>
           in Inr (g\<lparr>p_instance := Some i, p_frontend := Some AndroidFrontend,
                     p_uuid := uuid\<rparr>)))"
| "run_item uuid ExitItem g =
     (case p_dispatcher g of
        None \<Rightarrow> Inl NullDereference
      | Some d \<Rightarrow>
          (case p_instance g of
             None \<Rightarrow> Inl NullDereference
           | Some i \<Rightarrow>
               Inr (g\<lparr>p_dispatcher := Some (detach d),
                       p_instance := Some (i\<lparr>exit_requested := True\<rparr>)\<rparr>)))"
| "run_item uuid (KeyEventItem parsedKey) g =
     (case (p_frontend g, p_instance g) of
        (Some f, Some i) \<Rightarrow>
          Inr (g\<lparr>p_instance :=
                   Some (i\<lparr>frontend_calls := frontend_calls i @ [KeyEvent (p_uuid g) parsedKey False]\<rparr>)\<rparr>)
      | _ \<Rightarrow> Inl NullDereference)"
| "run_item uuid (SelectCandidateItem idx) g =
     (case (p_frontend g, p_instance g) of
        (Some f, Some i) \<Rightarrow>
          Inr (g\<lparr>p_instance :=
                   Some (i\<lparr>frontend_calls := frontend_calls i @ [SelectCandidate (p_uuid g) idx]\<rparr>)\<rparr>)
      | _ \<Rightarrow> Inl NullDereference)"
| "run_item uuid ResetInputPanelItem g =
     (case (p_frontend g, p_instance g) of
        (Some f, Some i) \<Rightarrow>
          Inr (g\<lparr>p_instance :=
                   Some (i\<lparr>frontend_calls := frontend_calls i @ [ResetInputPanel (p_uuid g)]\<rparr>)\<rparr>)
      | _ \<Rightarrow> Inl NullDereference)"

subsection \<open>The run of the engine, seen from its own thread\<close>

text \<open>
  The event loop takes the next work item from an attached dispatcher and runs it; with
  nothing to run it leaves the globals as they are.
\<close>

definition loop_runs_item :: "ICUUID \<Rightarrow> globals \<Rightarrow> jni_fault + globals" where
  "loop_runs_item uuid g =
     (case p_dispatcher g of
        None \<Rightarrow> Inr g
      | Some d \<Rightarrow>
          (if attached d then
             (case queue d of
                [] \<Rightarrow> Inr g
              | item # rest \<Rightarrow> run_item uuid item (g\<lparr>p_dispatcher := Some (d\<lparr>queue := rest\<rparr>)\<rparr>))
           else Inr g))"

text \<open>
  A run of \<^verbatim>\<open>exec()\<close> with no other thread calling in: the loop runs one queued work item
  for each entry of the list (the entry is the context id the addon hands out if the item
  asks for one) and then ends as \<open>r\<close>. A fault inside a work item ends the process inside
  \<^verbatim>\<open>exec()\<close>, which then gives nothing back.
\<close>

fun exec_session :: "ICUUID list \<Rightarrow> ExecResult \<Rightarrow> globals \<Rightarrow> (ExecResult \<times> globals) option" where
  "exec_session [] r g = Some (r, g)"
| "exec_session (uuid # uuids) r g =
     (case loop_runs_item uuid g of
        Inl fault \<Rightarrow> None
      | Inr g' \<Rightarrow> exec_session uuids r g')"

text \<open>
  The addon emits a notification through the callback it was given for it: the callback
  marshals the payload and calls the host.
\<close>

fun callback_of :: "NotificationEvent \<Rightarrow> FrontendCallback" where
  "callback_of (CandidateList candidateList) = CandidateListCallback"
| "callback_of (CommitString str) = CommitStringCallback"
| "callback_of (Preedit preedit clientPreedit) = PreeditCallback"
| "callback_of (AuxText auxUp auxDown) = InputPanelAuxCallback"

definition addon_notifies :: "NotificationEvent \<Rightarrow> globals \<Rightarrow> globals" where
  "addon_notifies ev g =
     (case p_instance g of
        None \<Rightarrow> g
      | Some i \<Rightarrow>
          (if callback_of ev \<in> set (callbacks i) then
             (case notify ev of
                Inl fault \<Rightarrow> g
              | Inr he \<Rightarrow> g\<lparr>host_events := host_events g @ [he]\<rparr>)
           else g))"

subsection \<open>Statement by statement\<close>

text \<open>
  The globals are written with no lock, one statement at a time, while other threads read
  them. The statements of the file that touch the globals or the engine, each with its
  effect: the log and \<^verbatim>\<open>setenv\<close> calls; lines 129, 130, 131, 132 and 134 of the startup;
  lines 135-139 (one \<^verbatim>\<open>setGroup\<close> on the engine), 142-145, 146, 147 and 148 of the setup
  item; lines 180 and 181 of the exit item; the addon calls of lines 193, 203, 213, 221
  and 229; lines 53, 54 and 55 of the reset.
\<close>

datatype stmt =
    JniLog string
  | Setenv string string
  | NewInstance
  | RegisterDefaultLoader
  | NewDispatcher
  | AttachDispatcher
  | Schedule WorkItem
  | SetGroup
  | SetCallback FrontendCallback
  | CreateInputContext ICUUID
  | StoreFrontend
  | StoreUuid ICUUID
  | DetachDispatcher
  | ExitInstance
  | DoKeyEvent Key
  | DoSelectCandidate int
  | DoResetInputPanel
  | QueryInputPanelEmpty
  | ResetInstance
  | ResetDispatcher
  | ResetFrontend

fun exec_stmt :: "stmt \<Rightarrow> globals \<Rightarrow> jni_fault + globals" where
  "exec_stmt (JniLog s) g = Inr (jniLog s g)"
| "exec_stmt (Setenv name val) g = Inr (setenv name val g)"
| "exec_stmt NewInstance g = Inr (g\<lparr>p_instance := Some (make_Instance (environ g))\<rparr>)"
| "exec_stmt RegisterDefaultLoader g =
     (case p_instance g of
        None \<Rightarrow> Inl NullDereference
      | Some i \<Rightarrow> Inr (g\<lparr>p_instance := Some (i\<lparr>default_loader := True\<rparr>)\<rparr>))"
| "exec_stmt NewDispatcher g = Inr (g\<lparr>p_dispatcher := Some make_EventDispatcher\<rparr>)"
| "exec_stmt AttachDispatcher g =
     (case (p_dispatcher g, p_instance g) of
        (Some d, Some i) \<Rightarrow> Inr (g\<lparr>p_dispatcher := Some (attach d)\<rparr>)
      | _ \<Rightarrow> Inl NullDereference)"
| "exec_stmt (Schedule item) g =
     (case p_dispatcher g of
        None \<Rightarrow> Inl NullDereference
      | Some d \<Rightarrow> Inr (dispatcher_schedule item g))"
| "exec_stmt SetGroup g =
     (case p_instance g of
        None \<Rightarrow> Inl NullDereference
      | Some i \<Rightarrow>
          Inr (g\<lparr>p_instance :=
                   Some (i\<lparr>inputMethodList := [''pinyin''], defaultInputMethod := []\<rparr>)\<rparr>))"
| "exec_stmt (SetCallback cb) g =
     (case p_instance g of
        None \<Rightarrow> Inl NullDereference
      | Some i \<Rightarrow> Inr (g\<lparr>p_instance := Some (i\<lparr>callbacks := callbacks i @ [cb]\<rparr>)\<rparr>))"
| "exec_stmt (CreateInputContext uuid) g =
     (case p_instance g of
        None \<Rightarrow> Inl NullDereference
      | Some i \<Rightarrow> Inr (g\<lparr>p_instance := Some (i\<lparr>contexts := contexts i @ [uuid]\<rparr>)\<rparr>))"
| "exec_stmt StoreFrontend g = Inr (g\<lparr>p_frontend := Some AndroidFrontend\<rparr>)"
| "exec_stmt (StoreUuid uuid) g = Inr (g\<lparr>p_uuid := uuid\<rparr>)"
| "exec_stmt DetachDispatcher g =
     (case p_dispatcher g of
        None \<Rightarrow> Inl NullDereference
      | Some d \<Rightarrow> Inr (g\<lparr>p_dispatcher := Some (detach d)\<rparr>))"
| "exec_stmt ExitInstance g =
     (case p_instance g of
        None \<Rightarrow> Inl NullDereference
      | Some i \<Rightarrow> Inr (g\<lparr>p_instance := Some (i\<lparr>exit_requested := True\<rparr>)\<rparr>))"
| "exec_stmt (DoKeyEvent parsedKey) g =
     (case (p_frontend g, p_instance g) of
        (Some f, Some i) \<Rightarrow>
          Inr (g\<lparr>p_instance :=
                   Some (i\<lparr>frontend_calls := frontend_calls i @ [KeyEvent (p_uuid g) parsedKey False]\<rparr>)\<rparr>)
      | _ \<Rightarrow> Inl NullDereference)"
| "exec_stmt (DoSelectCandidate idx) g =
     (case (p_frontend g, p_instance g) of
        (Some f, Some i) \<Rightarrow>
          Inr (g\<lparr>p_instance :=
                   Some (i\<lparr>frontend_calls := frontend_calls i @ [SelectCandidate (p_uuid g) idx]\<rparr>)\<rparr>)
      | _ \<Rightarrow> Inl NullDereference)"
| "exec_stmt DoResetInputPanel g =
     (case (p_frontend g, p_instance g) of
        (Some f, Some i) \<Rightarrow>
          Inr (g\<lparr>p_instance :=
                   Some (i\<lparr>frontend_calls := frontend_calls i @ [ResetInputPanel (p_uuid g)]\<rparr>)\<rparr>)
      | _ \<Rightarrow> Inl NullDereference)"
| "exec_stmt QueryInputPanelEmpty g =
     (case (p_frontend g, p_instance g) of
        (Some f, Some i) \<Rightarrow> Inr g
      | _ \<Rightarrow> Inl NullDereference)"
| "exec_stmt ResetInstance g = Inr (g\<lparr>p_instance := None\<rparr>)"
| "exec_stmt ResetDispatcher g = Inr (g\<lparr>p_dispatcher := None\<rparr>)"
| "exec_stmt ResetFrontend g =
     (case p_frontend g of
        None \<Rightarrow> Inr g
      | Some addon \<Rightarrow> Inl DoubleDelete)"

text \<open>One thread running a list of statements with no other thread in between.\<close>

fun run_stmts :: "stmt list \<Rightarrow> globals \<Rightarrow> jni_fault + globals" where
  "run_stmts [] g = Inr g"
| "run_stmts (s # rest) g =
     (case exec_stmt s g of
        Inl fault \<Rightarrow> Inl fault
      | Inr g' \<Rightarrow> run_stmts rest g')"

text \<open>
  The statements of lines 75-149, of each work item, of the reset, of the three handlers
  of lines 151-163 with the code each returns, and of each guarded entry point once its
  guard has passed.
\<close>

definition prepare_stmts :: "string \<Rightarrow> string \<Rightarrow> string \<Rightarrow> stmt list" where
  "prepare_stmts app_data app_lib ext_data =
     [JniLog ''startupFcitx'',
      Setenv ''SKIP_FCITX_PATH'' ''true'',
      Setenv ''HOME'' ext_data,
      Setenv ''XDG_DATA_DIRS'' app_data,
      Setenv ''XDG_CONFIG_HOME'' ext_data,
      Setenv ''XDG_DATA_HOME'' ext_data,
      Setenv ''FCITX_ADDON_DIRS'' app_lib,
      Setenv ''LIBIME_MODEL_DIRS'' (c_str app_data @ ''/fcitx5/libime''),
      Setenv ''LIBIME_INSTALL_PKGDATADIR'' (c_str app_data @ ''/fcitx5/libime''),
      NewInstance,
      RegisterDefaultLoader,
      NewDispatcher,
      AttachDispatcher,
      Schedule SetupItem]"

fun item_stmts :: "ICUUID \<Rightarrow> WorkItem \<Rightarrow> stmt list" where
  "item_stmts uuid SetupItem =
     [SetGroup,
      SetCallback CandidateListCallback,
      SetCallback CommitStringCallback,
      SetCallback PreeditCallback,
      SetCallback InputPanelAuxCallback,
      CreateInputContext uuid,
      StoreFrontend,
      StoreUuid uuid]"
| "item_stmts uuid ExitItem = [DetachDispatcher, ExitInstance]"
| "item_stmts uuid (KeyEventItem parsedKey) = [DoKeyEvent parsedKey]"
| "item_stmts uuid (SelectCandidateItem idx) = [DoSelectCandidate idx]"
| "item_stmts uuid ResetInputPanelItem = [DoResetInputPanel]"

definition reset_stmts :: "stmt list" where
  "reset_stmts = [JniLog ''resetGlobalPointers'', ResetInstance, ResetDispatcher, ResetFrontend]"

fun handler :: "ExecResult \<Rightarrow> jni_fault + int \<times> stmt list" where
  "handler (Returned code) = Inr (code, reset_stmts)"
| "handler InstanceQuietQuit = Inr (0, reset_stmts)"
| "handler (StdException what) =
     Inr (1, [JniLog ''fcitx exited with exception:'', JniLog what] @ reset_stmts)"
| "handler OtherThrow = Inl UncaughtThrow"

datatype guarded_call =
    ExitFcitx
  | SendKeyString string
  | SendKeyChar "16 word" string
  | SelectCandidateCall int
  | IsInputPanelEmptyCall
  | ResetInputPanelCall

fun guarded_stmts :: "guarded_call \<Rightarrow> stmt list" where
  "guarded_stmts ExitFcitx = [JniLog ''shutting down fcitx'', Schedule ExitItem]"
| "guarded_stmts (SendKeyString k) = [Schedule (KeyEventItem (Key (c_str k)))]"
| "guarded_stmts (SendKeyChar c bytes) = [Schedule (KeyEventItem (Key (jchar_as_c_str c bytes)))]"
| "guarded_stmts (SelectCandidateCall idx) =
     [JniLog (''select candidate #'' @ to_string idx), Schedule (SelectCandidateItem idx)]"
| "guarded_stmts IsInputPanelEmptyCall = [QueryInputPanelEmpty]"
| "guarded_stmts ResetInputPanelCall = [Schedule ResetInputPanelItem]"

subsection \<open>Interleavings\<close>

text \<open>
  The threads of the process, one statement at a time. The thread that called
  \<^verbatim>\<open>startupFcitx\<close> is in one of five places: not in the call; in lines 75-149; inside
  \<^verbatim>\<open>exec()\<close> between two work items; inside \<^verbatim>\<open>exec()\<close> in a work item; in a handler of
  lines 151-163, on its way to returning a code. \<open>todo\<close> holds the statements it has left
  in that place. Each host thread that has passed the guard of a guarded entry point has
  its remaining statements in \<open>hosts\<close>.
\<close>

datatype phase = Idle | Preparing | InExec | InItem | Finishing int

record machine =
  shared :: globals
  phase :: phase
  todo :: "stmt list"
  hosts :: "stmt list list"

definition initial_machine :: machine where
  "initial_machine = \<lparr> shared = initial_globals, phase = Idle, todo = [], hosts = [] \<rparr>"

text \<open>
  What can happen next. A host thread calls \<^verbatim>\<open>startupFcitx\<close>: the guard of line 71 sends
  it away with the log line, or it starts on lines 75-149. A host thread calls a guarded
  entry point: the guard sends it away with the warning, or lets it in. A host thread
  that was let in, or the startup thread, runs its next statement; the startup thread
  moves on to the next place after the last one. The event loop takes the next work item.
  The addon emits a notification. \<^verbatim>\<open>exec()\<close> ends. An event that cannot happen in a state
  leaves it as it is. The machine follows one startup thread: where a second call of
  \<^verbatim>\<open>startupFcitx\<close> passes the guard while the first is still on its way, two threads run
  the same lines on the same globals, and the machine stops. The three reads of a guard
  are taken at one moment. The machine serves to exhibit interleavings; the general
  statements below are about one operation in an arbitrary state of the globals.
\<close>

datatype event =
    CallStartup string string string
  | Call guarded_call
  | HostStep nat
  | ThreadStep
  | LoopRunsItem ICUUID
  | AddonNotifies NotificationEvent
  | ExecEnds ExecResult

fun next_phase :: "phase \<Rightarrow> phase" where
  "next_phase Preparing = InExec"
| "next_phase InItem = InExec"
| "next_phase (Finishing code) = Idle"
| "next_phase p = p"

fun step :: "event \<Rightarrow> machine \<Rightarrow> jni_fault + machine" where
  "step (CallStartup app_data app_lib ext_data) m =
     (if p_instance (shared m) \<noteq> None then
        Inr (m\<lparr>shared := jniLog ''fcitx already running'' (shared m)\<rparr>)
      else if phase m = Idle then
        Inr (m\<lparr>phase := Preparing, todo := prepare_stmts app_data app_lib ext_data\<rparr>)
      else Inl RacingStartup)"
| "step (Call c) m =
     (if not_running (shared m) then Inr (m\<lparr>shared := jniLog ''fcitx is not running!'' (shared m)\<rparr>)
      else Inr (m\<lparr>hosts := hosts m @ [guarded_stmts c]\<rparr>))"
| "step (HostStep n) m =
     (if n < length (hosts m) then
        (case hosts m ! n of
           [] \<Rightarrow> Inr m
         | s # rest \<Rightarrow>
             (case exec_stmt s (shared m) of
                Inl fault \<Rightarrow> Inl fault
              | Inr g \<Rightarrow> Inr (m\<lparr>shared := g, hosts := (hosts m)[n := rest]\<rparr>)))
      else Inr m)"
| "step ThreadStep m =
     (case todo m of
        [] \<Rightarrow> Inr m
      | s # rest \<Rightarrow>
          (case exec_stmt s (shared m) of
             Inl fault \<Rightarrow> Inl fault
           | Inr g \<Rightarrow>
               Inr (m\<lparr>shared := g, todo := rest,
                      phase := (if rest = [] then next_phase (phase m) else phase m)\<rparr>)))"
| "step (LoopRunsItem uuid) m =
     (if phase m = InExec then
        (case p_dispatcher (shared m) of
           None \<Rightarrow> Inr m
         | Some d \<Rightarrow>
             (if attached d then
                (case queue d of
                   [] \<Rightarrow> Inr m
                 | item # rest \<Rightarrow>
                     Inr (m\<lparr>shared := (shared m)\<lparr>p_dispatcher := Some (d\<lparr>queue := rest\<rparr>)\<rparr>,
                            phase := InItem, todo := item_stmts uuid item\<rparr>))
              else Inr m))
      else Inr m)"
| "step (AddonNotifies ev) m =
     (if phase m = InExec \<or> phase m = InItem then Inr (m\<lparr>shared := addon_notifies ev (shared m)\<rparr>)
      else Inr m)"
| "step (ExecEnds r) m =
     (if phase m = InExec then
        (case handler r of
           Inl fault \<Rightarrow> Inl fault
         | Inr (code, stmts) \<Rightarrow> Inr (m\<lparr>phase := Finishing code, todo := stmts\<rparr>))
      else Inr m)"

fun run :: "event list \<Rightarrow> machine \<Rightarrow> jni_fault + machine" where
  "run [] m = Inr m"
| "run (ev # evs) m =
     (case step ev m of
        Inl fault \<Rightarrow> Inl fault
      | Inr m' \<Rightarrow> run evs m')"

text \<open>
  What an observer of the handle sees: the liveness of the three pointers, and whether
  \<^verbatim>\<open>p_uuid\<close> has left its zero initial value.
\<close>

definition handle_view :: "globals \<Rightarrow> bool \<times> bool \<times> bool \<times> bool" where
  "handle_view g =
     (p_instance g \<noteq> None, p_dispatcher g \<noteq> None, p_frontend g \<noteq> None, p_uuid g \<noteq> zero_uuid)"

section \<open>Properties\<close>

subsection \<open>Auxiliary facts\<close>

lemma c_str_id: "CHR 0x00 \<notin> set s \<Longrightarrow> c_str s = s"
  by (auto simp: c_str_def)

lemma jniLog_eq:
  "CHR 0x00 \<notin> set s \<Longrightarrow>
   jniLog s g = g\<lparr>logcat := logcat g @ [(ANDROID_LOG_DEBUG, ''JNI'', s)]\<rparr>"
  by (simp add: jniLog_def android_log_write_def c_str_id)

lemma jniLog_sel [simp]:
  "p_instance (jniLog s g) = p_instance g"
  "p_dispatcher (jniLog s g) = p_dispatcher g"
  "p_frontend (jniLog s g) = p_frontend g"
  "p_uuid (jniLog s g) = p_uuid g"
  "environ (jniLog s g) = environ g"
  "host_events (jniLog s g) = host_events g"
  "logcat (jniLog s g) = logcat g @ [(ANDROID_LOG_DEBUG, ''JNI'', c_str s)]"
  by (simp_all add: jniLog_def android_log_write_def c_str_def)

lemma char_of_nat_NUL_iff: "(char_of (n::nat) = CHR 0x00) = (n mod 256 = 0)"
  by (simp add: char_of_eq_iff take_bit_eq_mod)

lemma jchar_high_byte: "unat (c :: 16 word) div 256 < 256"
proof -
  have "unat c < 2 ^ 16" using unsigned_less [of c, where 'a = nat] by simp
  then show ?thesis by simp
qed

lemma relay_buffer_eq:
  "buf \<noteq> [] \<Longrightarrow>
   relay_buffer buf sink =
     sink @ [(ANDROID_LOG_DEBUG, ''fcitx5'',
              c_str (if last buf = CHR 0x0A then butlast buf else buf))]"
  by (simp add: relay_buffer_def android_log_write_def Let_def last_conv_nth butlast_conv_take
      c_str_def)

lemma fill_vararg_eq:
  "length arr = i + length ss + k \<Longrightarrow>
   fill_vararg ss i arr =
     take i arr @ map (\<lambda>s. Some (c_str s)) ss @ drop (i + length ss) arr"
proof (induction ss arbitrary: i arr)
  case Nil
  then show ?case by simp
next
  case (Cons s ss)
  have lt: "i < length arr" using Cons.prems by simp
  have "fill_vararg (s # ss) i arr = fill_vararg ss (Suc i) (arr[i := Some (c_str s)])"
    using lt by (simp add: SetObjectArrayElement_def NewStringUTF_def)
  also have "\<dots> = take (Suc i) (arr[i := Some (c_str s)]) @ map (\<lambda>s. Some (c_str s)) ss
       @ drop (Suc i + length ss) (arr[i := Some (c_str s)])"
    using Cons.IH [of "arr[i := Some (c_str s)]" "Suc i"] Cons.prems by simp
  also have "\<dots> = take i arr @ map (\<lambda>s. Some (c_str s)) (s # ss)
       @ drop (i + length (s # ss)) arr"
    using lt by (simp add: take_Suc_conv_app_nth)
  finally show ?case .
qed

lemma sint_size: "n < 2 ^ 31 \<Longrightarrow> sint (word_of_nat n :: 32 word) = int n"
  by (simp add: signed_of_nat signed_take_bit_int_eq_self)

lemma candidateListCallback_eq:
  assumes "length cs < 2 ^ 31"
  shows "candidateListCallback cs = Inr (0, map (\<lambda>s. Some (c_str s)) cs)"
proof -
  have "fill_vararg cs 0 (replicate (length cs) None) = map (\<lambda>s. Some (c_str s)) cs"
    using fill_vararg_eq [of "replicate (length cs) None" 0 cs 0] by simp
  then show ?thesis
    using assms by (simp add: candidateListCallback_def NewObjectArray_def sint_size)
qed

lemma NUL_notin_c_str: "CHR 0x00 \<notin> set (c_str s)"
  by (auto simp: c_str_def dest: set_takeWhileD)

lemma c_str_libime: "c_str (c_str s @ ''/fcitx5/libime'') = c_str s @ ''/fcitx5/libime''"
proof -
  have "CHR 0x00 \<notin> set (c_str s)" by (rule NUL_notin_c_str)
  then have "CHR 0x00 \<notin> set (c_str s @ ''/fcitx5/libime'')" by simp
  then show ?thesis by (rule c_str_id)
qed

lemma zero_uuid_eq: "zero_uuid = [0, 0, 0, 0, 0, 0, 0, 0, 0, 0, 0, 0, 0, 0, 0, 0]"
  by (simp add: zero_uuid_def eval_nat_numeral)

lemma startup_prepare_eq:
  "startup_prepare a l e g =
     g\<lparr>logcat := logcat g @ [(ANDROID_LOG_DEBUG, ''JNI'', ''startupFcitx'')],
       environ := startup_env a l e (environ g),
       p_instance :=
         Some ((make_Instance (startup_env a l e (environ g)))\<lparr>default_loader := True\<rparr>),
       p_dispatcher := Some \<lparr>attached = True, queue = [SetupItem]\<rparr>\<rparr>"
  by (simp add: startup_prepare_def Let_def setenv_def jniLog_eq dispatcher_schedule_def
      schedule_def attach_def make_EventDispatcher_def startup_env_def c_str_libime
      c_str_def [of "''SKIP_FCITX_PATH''"] c_str_def [of "''true''"] c_str_def [of "''HOME''"]
      c_str_def [of "''XDG_DATA_DIRS''"] c_str_def [of "''XDG_CONFIG_HOME''"]
      c_str_def [of "''XDG_DATA_HOME''"] c_str_def [of "''FCITX_ADDON_DIRS''"]
      c_str_def [of "''LIBIME_MODEL_DIRS''"] c_str_def [of "''LIBIME_INSTALL_PKGDATADIR''"])

lemma dispatcher_schedule_sel [simp]:
  "p_instance (dispatcher_schedule item g) = p_instance g"
  "p_frontend (dispatcher_schedule item g) = p_frontend g"
  "p_uuid (dispatcher_schedule item g) = p_uuid g"
  "(p_dispatcher (dispatcher_schedule item g) = None) = (p_dispatcher g = None)"
  by (simp_all add: dispatcher_schedule_def split: option.splits)

lemma logger_thread_reads_of:
  "logger_thread reads pipe sink =
     sink @ map (\<lambda>buf. (ANDROID_LOG_DEBUG, ''fcitx5'',
                         c_str (if last buf = CHR 0x0A then butlast buf else buf)))
                (reads_of reads pipe)"
proof (induction reads arbitrary: pipe sink)
  case Nil
  then show ?case by simp
next
  case (Cons avail reads)
  show ?case
  proof (cases "take (min avail 127) pipe = []")
    case True
    then show ?thesis by (simp add: read_pipe_def)
  next
    case False
    then show ?thesis
      by (simp add: read_pipe_def relay_buffer_eq [OF False] Cons.IH)
  qed
qed

lemma reads_of_prefix: "\<exists>rest. pipe = concat (reads_of reads pipe) @ rest"
proof (induction reads arbitrary: pipe)
  case Nil
  then show ?case by simp
next
  case (Cons avail reads)
  show ?case
  proof (cases "take (min avail 127) pipe = []")
    case True
    then show ?thesis by (simp add: read_pipe_def)
  next
    case False
    from Cons.IH [of "drop (min avail 127) pipe"] obtain rest where
      r: "drop (min avail 127) pipe = concat (reads_of reads (drop (min avail 127) pipe)) @ rest"
      by blast
    have "pipe = take (min avail 127) pipe @ drop (min avail 127) pipe" by simp
    also have "\<dots> = take (min avail 127) pipe
        @ concat (reads_of reads (drop (min avail 127) pipe)) @ rest"
      using r by simp
    finally have "pipe = concat (reads_of (avail # reads) pipe) @ rest"
      using False by (simp add: read_pipe_def)
    then show ?thesis by blast
  qed
qed

lemma reads_of_bounds: "buf \<in> set (reads_of reads pipe) \<Longrightarrow> 0 < length buf \<and> length buf \<le> 127"
proof (induction reads arbitrary: pipe)
  case Nil
  then show ?case by simp
next
  case (Cons avail reads)
  then show ?case
    by (auto simp: read_pipe_def split: if_splits)
qed

lemma resetGlobalPointers_eq:
  "resetGlobalPointers g =
     (case p_frontend g of
        None \<Rightarrow>
          Inr (g\<lparr>logcat := logcat g @ [(ANDROID_LOG_DEBUG, ''JNI'', ''resetGlobalPointers'')],
                 p_instance := None, p_dispatcher := None\<rparr>)
      | Some addon \<Rightarrow> Inl DoubleDelete)"
  by (simp add: resetGlobalPointers_def Let_def jniLog_eq split: option.splits)

lemma addon_notifies_eq:
  assumes "p_instance g = Some i" and "callback_of ev \<in> set (callbacks i)"
    and "notify ev = Inr he"
  shows "addon_notifies ev g = g\<lparr>host_events := host_events g @ [he]\<rparr>"
  using assms by (simp add: addon_notifies_def)

text \<open>
  A thread that runs its statements with no other thread in between does what the
  functions above do.
\<close>

lemma run_stmts_prepare:
  "run_stmts (prepare_stmts app_data app_lib ext_data) g =
     Inr (startup_prepare app_data app_lib ext_data g)"
  by (simp add: prepare_stmts_def startup_prepare_def Let_def setenv_def jniLog_def
      dispatcher_schedule_def attach_def make_EventDispatcher_def)

lemma run_stmts_item: "run_stmts (item_stmts uuid item) g = run_item uuid item g"
  by (cases item) (auto simp: Let_def split: option.splits)

lemma run_stmts_reset: "run_stmts reset_stmts g = resetGlobalPointers g"
  by (simp add: reset_stmts_def resetGlobalPointers_def Let_def split: option.splits)

lemma startup_finish_handler:
  "startup_finish r g =
     (case handler r of
        Inl fault \<Rightarrow> Inl fault
      | Inr (code, stmts) \<Rightarrow>
          (case run_stmts stmts g of
             Inl fault \<Rightarrow> Inl fault
           | Inr g' \<Rightarrow> Inr (code, g')))"
  by (cases r) (simp_all add: run_stmts_reset)

lemma run_stmts_guarded:
  assumes "\<not> not_running g"
  shows "run_stmts (guarded_stmts ExitFcitx) g = Inr (exitFcitx g)"
    and "run_stmts (guarded_stmts (SendKeyString k)) g = Inr (sendKeyToFcitxString k g)"
    and "run_stmts (guarded_stmts (SendKeyChar c mem)) g = Inr (sendKeyToFcitxChar c mem g)"
    and "run_stmts (guarded_stmts (SelectCandidateCall idx)) g = Inr (selectCandidate idx g)"
    and "run_stmts (guarded_stmts IsInputPanelEmptyCall) g = Inr (snd (isInputPanelEmpty answer g))"
    and "run_stmts (guarded_stmts ResetInputPanelCall) g = Inr (resetInputPanel g)"
  using assms
  by (auto simp: not_running_def exitFcitx_def sendKeyToFcitxString_def sendKeyToFcitxChar_def
      selectCandidate_def isInputPanelEmpty_def resetInputPanel_def dispatcher_schedule_def)

text \<open>
  Where \<^verbatim>\<open>p_frontend\<close> is set when \<^verbatim>\<open>exec()\<close> ends, every handler ends in the second
  delete; where it is null, each handler resets the pointers and returns its code.
\<close>

lemma startup_finish_frontend_set:
  "p_frontend g \<noteq> None \<Longrightarrow> r \<noteq> OtherThrow \<Longrightarrow> startup_finish r g = Inl DoubleDelete"
  by (cases r) (auto simp: resetGlobalPointers_eq)

lemma startup_finish_frontend_null:
  assumes "p_frontend g = None"
  shows "map_sum id fst (startup_finish (Returned code) g) = Inr code"
    and "map_sum id fst (startup_finish InstanceQuietQuit g) = Inr 0"
    and "map_sum id fst (startup_finish (StdException what) g) = Inr 1"
  using assms by (simp_all add: resetGlobalPointers_eq)

subsection \<open>Starting twice\<close>

text \<open>
  C2. When \<^verbatim>\<open>startupFcitx\<close> is called while an engine is running (\<^verbatim>\<open>p_instance\<close> is set), it
  returns 2 and leaves the globals as they are: the environment, the three pointers and the
  objects behind them, \<^verbatim>\<open>p_uuid\<close> and the events delivered to the host are unchanged.
  The engine's run is not entered. The one thing the call does is write the line
  "fcitx already running" to the log.
\<close>

theorem startupFcitx_already_running:
  assumes "p_instance g \<noteq> None"
  shows "startupFcitx exec app_data app_lib ext_data g =
           Some (Inr (2, g\<lparr>logcat := logcat g @
                             [(ANDROID_LOG_DEBUG, ''JNI'', ''fcitx already running'')]\<rparr>))"
  using assms by (simp add: startupFcitx_def jniLog_eq)

theorem startupFcitx_already_running_witness:
  "p_instance (startup_prepare ''/data/app'' ''/data/app/lib'' ''/data/ext'' initial_globals) \<noteq> None
   \<and> startupFcitx (exec_session [] (Returned 0)) ''/data/app2'' ''/data/app2/lib'' ''/data/ext2''
       (startup_prepare ''/data/app'' ''/data/app/lib'' ''/data/ext'' initial_globals) =
     Some (Inr (2, (startup_prepare ''/data/app'' ''/data/app/lib'' ''/data/ext'' initial_globals)
                \<lparr>logcat := [(ANDROID_LOG_DEBUG, ''JNI'', ''startupFcitx''),
                            (ANDROID_LOG_DEBUG, ''JNI'', ''fcitx already running'')]\<rparr>))"
proof -
  have h: "p_instance (startup_prepare ''/data/app'' ''/data/app/lib'' ''/data/ext'' initial_globals) \<noteq> None"
    by (simp add: startup_prepare_eq initial_globals_def)
  have l: "logcat (startup_prepare ''/data/app'' ''/data/app/lib'' ''/data/ext'' initial_globals) =
      [(ANDROID_LOG_DEBUG, ''JNI'', ''startupFcitx'')]"
    by (simp add: startup_prepare_eq initial_globals_def)
  show ?thesis
    using h startupFcitx_already_running [OF h, of "exec_session [] (Returned 0)"
        "''/data/app2''" "''/data/app2/lib''" "''/data/ext2''"]
    by (simp add: l)
qed

subsection \<open>Guarded operations on a stopped engine\<close>

text \<open>
  C3. When the guard of a guarded operation finds one of the three pointers null (so in
  particular before the first startup and after a run has ended), \<^verbatim>\<open>isInputPanelEmpty\<close>
  returns true, and it and every command (\<^verbatim>\<open>exitFcitx\<close>, both \<^verbatim>\<open>sendKeyToFcitx\<close> overloads,
  \<^verbatim>\<open>selectCandidate\<close>, \<^verbatim>\<open>resetInputPanel\<close>) write the warning "fcitx is not running!" to
  the log and change nothing else; none of them ends in a fault.
\<close>

theorem guarded_not_running:
  assumes "not_running g"
  shows "isInputPanelEmpty answer g =
           (True, g\<lparr>logcat := logcat g @ [(ANDROID_LOG_DEBUG, ''JNI'', ''fcitx is not running!'')]\<rparr>)
    \<and> exitFcitx g =
           g\<lparr>logcat := logcat g @ [(ANDROID_LOG_DEBUG, ''JNI'', ''fcitx is not running!'')]\<rparr>
    \<and> sendKeyToFcitxString k g =
           g\<lparr>logcat := logcat g @ [(ANDROID_LOG_DEBUG, ''JNI'', ''fcitx is not running!'')]\<rparr>
    \<and> sendKeyToFcitxChar c mem g =
           g\<lparr>logcat := logcat g @ [(ANDROID_LOG_DEBUG, ''JNI'', ''fcitx is not running!'')]\<rparr>
    \<and> selectCandidate idx g =
           g\<lparr>logcat := logcat g @ [(ANDROID_LOG_DEBUG, ''JNI'', ''fcitx is not running!'')]\<rparr>
    \<and> resetInputPanel g =
           g\<lparr>logcat := logcat g @ [(ANDROID_LOG_DEBUG, ''JNI'', ''fcitx is not running!'')]\<rparr>"
  using assms
  by (simp add: isInputPanelEmpty_def exitFcitx_def sendKeyToFcitxString_def
      sendKeyToFcitxChar_def selectCandidate_def resetInputPanel_def jniLog_eq)

theorem guarded_not_running_witness:
  "not_running initial_globals
   \<and> isInputPanelEmpty False initial_globals =
       (True, initial_globals\<lparr>logcat := [(ANDROID_LOG_DEBUG, ''JNI'', ''fcitx is not running!'')]\<rparr>)
   \<and> selectCandidate 2 initial_globals =
       initial_globals\<lparr>logcat := [(ANDROID_LOG_DEBUG, ''JNI'', ''fcitx is not running!'')]\<rparr>
   \<and> not_running (startup_prepare ''/data/app'' ''/data/app/lib'' ''/data/ext'' initial_globals)
   \<and> fst (isInputPanelEmpty False
         (startup_prepare ''/data/app'' ''/data/app/lib'' ''/data/ext'' initial_globals)) = True"
proof -
  let ?g = "startup_prepare ''/data/app'' ''/data/app/lib'' ''/data/ext'' initial_globals"
  have h: "not_running initial_globals"
    by (simp add: not_running_def initial_globals_def)
  have h': "not_running ?g"
    by (simp add: not_running_def startup_prepare_eq initial_globals_def)
  from guarded_not_running [OF h', of False] have "fst (isInputPanelEmpty False ?g) = True"
    by simp
  then show ?thesis
    using h h' guarded_not_running [OF h, of False "''a''" 0 "[]" 2]
    by (simp add: initial_globals_def)
qed

subsection \<open>Shutdown\<close>

text \<open>
  C6. When the guard finds the three pointers set, \<^verbatim>\<open>exitFcitx\<close> logs "shutting down fcitx",
  appends exactly one work item to the dispatcher's queue and returns with nothing else
  changed: the item has not run, the dispatcher is as attached as before and no exit has
  been requested. That item, when the event loop runs it, detaches the dispatcher and
  requests the instance to exit. When the guard finds a pointer null, \<^verbatim>\<open>exitFcitx\<close> logs
  the warning and changes nothing else.
\<close>

theorem exitFcitx_schedules_exit:
  "(not_running g \<longrightarrow>
      exitFcitx g =
        g\<lparr>logcat := logcat g @ [(ANDROID_LOG_DEBUG, ''JNI'', ''fcitx is not running!'')]\<rparr>)
   \<and> (\<not> not_running g \<longrightarrow>
      (\<exists>i d. p_instance g = Some i \<and> p_dispatcher g = Some d
         \<and> exitFcitx g =
             g\<lparr>logcat := logcat g @ [(ANDROID_LOG_DEBUG, ''JNI'', ''shutting down fcitx'')],
               p_dispatcher := Some (d\<lparr>queue := queue d @ [ExitItem]\<rparr>)\<rparr>
         \<and> run_item uuid ExitItem g =
             Inr (g\<lparr>p_dispatcher := Some (d\<lparr>attached := False\<rparr>),
                     p_instance := Some (i\<lparr>exit_requested := True\<rparr>)\<rparr>)))"
  by (auto simp: exitFcitx_def not_running_def jniLog_eq dispatcher_schedule_def schedule_def
      detach_def)

theorem exitFcitx_schedules_exit_witness:
  "exitFcitx initial_globals =
     initial_globals\<lparr>logcat := [(ANDROID_LOG_DEBUG, ''JNI'', ''fcitx is not running!'')]\<rparr>
   \<and> exitFcitx (initial_globals\<lparr>p_instance := Some (make_Instance Map.empty),
         p_dispatcher := Some (attach make_EventDispatcher), p_frontend := Some AndroidFrontend\<rparr>) =
       initial_globals\<lparr>p_instance := Some (make_Instance Map.empty),
         p_dispatcher := Some \<lparr>attached = True, queue = [ExitItem]\<rparr>,
         p_frontend := Some AndroidFrontend,
         logcat := [(ANDROID_LOG_DEBUG, ''JNI'', ''shutting down fcitx'')]\<rparr>
   \<and> run_item zero_uuid ExitItem (initial_globals\<lparr>p_instance := Some (make_Instance Map.empty),
         p_dispatcher := Some (attach make_EventDispatcher), p_frontend := Some AndroidFrontend\<rparr>) =
       Inr (initial_globals\<lparr>p_instance := Some ((make_Instance Map.empty)\<lparr>exit_requested := True\<rparr>),
         p_dispatcher := Some \<lparr>attached = False, queue = []\<rparr>,
         p_frontend := Some AndroidFrontend\<rparr>)"
proof -
  have a: "not_running initial_globals"
    by (simp add: not_running_def initial_globals_def)
  have b: "\<not> not_running (initial_globals\<lparr>p_instance := Some (make_Instance Map.empty),
         p_dispatcher := Some (attach make_EventDispatcher), p_frontend := Some AndroidFrontend\<rparr>)"
    by (simp add: not_running_def)
  show ?thesis
    using a b exitFcitx_schedules_exit [of initial_globals zero_uuid]
      exitFcitx_schedules_exit [of "initial_globals\<lparr>p_instance := Some (make_Instance Map.empty),
         p_dispatcher := Some (attach make_EventDispatcher), p_frontend := Some AndroidFrontend\<rparr>"
         zero_uuid]
    by (auto simp: initial_globals_def attach_def make_EventDispatcher_def)
qed

subsection \<open>What a guarded operation does with the handle it finds\<close>




text \<open>
  Line 147 stores \<^verbatim>\<open>p_frontend\<close> before line 148 stores \<^verbatim>\<open>p_uuid\<close>: between the two, the
  guard passes while \<^verbatim>\<open>p_uuid\<close> still has its initial value.
\<close>

lemma guard_passes_before_p_uuid:
  "map_sum id (\<lambda>m. (handle_view (shared m), not_running (shared m), todo m))
     (run [CallStartup ''/data/app'' ''/data/app/lib'' ''/data/ext'',
           ThreadStep, ThreadStep, ThreadStep, ThreadStep, ThreadStep,
           ThreadStep, ThreadStep, ThreadStep, ThreadStep, ThreadStep,
           ThreadStep, ThreadStep, ThreadStep, ThreadStep,
           LoopRunsItem [1, 2, 3, 4, 5, 6, 7, 8, 9, 10, 11, 12, 13, 14, 15, 16],
           ThreadStep, ThreadStep, ThreadStep, ThreadStep,
           ThreadStep, ThreadStep, ThreadStep] initial_machine) =
     Inr ((True, True, True, False), False,
          [StoreUuid [1, 2, 3, 4, 5, 6, 7, 8, 9, 10, 11, 12, 13, 14, 15, 16]])"
  by (simp add: initial_machine_def initial_globals_def prepare_stmts_def
      handle_view_def zero_uuid_eq not_running_def setenv_def jniLog_def android_log_write_def
      dispatcher_schedule_def schedule_def attach_def make_EventDispatcher_def
      make_Instance_def c_str_def)

subsection \<open>The reset at the end of startupFcitx\<close>

text \<open>
  C4. The specification asks for a handle fully reset on every way out of
  \<^verbatim>\<open>startupFcitx\<close>. The code does not get there in two cases. In a run in which the setup
  item has stored \<^verbatim>\<open>p_frontend\<close> (here: startup, the setup item, a shutdown, the exit
  item, and \<^verbatim>\<open>exec()\<close> returning 0), the reset clears \<^verbatim>\<open>p_instance\<close> and \<^verbatim>\<open>p_dispatcher\<close>
  and then, at line 55, deletes the addon that line 53 has destroyed: the call ends in
  that fault, with \<^verbatim>\<open>p_frontend\<close> still set, and does not return. And when \<^verbatim>\<open>exec()\<close>
  throws something that is not a \<^verbatim>\<open>std::exception\<close>, no handler runs: the exception
  leaves the function with all four fields set.
\<close>

theorem startupFcitx_reset_faults:
  "map_sum id (\<lambda>m. (handle_view (shared m), phase m, todo m))
     (run [CallStartup ''/data/app'' ''/data/app/lib'' ''/data/ext'',
           ThreadStep, ThreadStep, ThreadStep, ThreadStep, ThreadStep,
           ThreadStep, ThreadStep, ThreadStep, ThreadStep, ThreadStep,
           ThreadStep, ThreadStep, ThreadStep, ThreadStep,
           LoopRunsItem [1, 2, 3, 4, 5, 6, 7, 8, 9, 10, 11, 12, 13, 14, 15, 16],
           ThreadStep, ThreadStep, ThreadStep, ThreadStep,
           ThreadStep, ThreadStep, ThreadStep, ThreadStep,
           Call ExitFcitx, HostStep 0, HostStep 0,
           LoopRunsItem [1, 2, 3, 4, 5, 6, 7, 8, 9, 10, 11, 12, 13, 14, 15, 16],
           ThreadStep, ThreadStep,
           ExecEnds (Returned 0),
           ThreadStep, ThreadStep, ThreadStep] initial_machine) =
     Inr ((False, False, True, True), Finishing 0, [ResetFrontend])
   \<and> run [CallStartup ''/data/app'' ''/data/app/lib'' ''/data/ext'',
           ThreadStep, ThreadStep, ThreadStep, ThreadStep, ThreadStep,
           ThreadStep, ThreadStep, ThreadStep, ThreadStep, ThreadStep,
           ThreadStep, ThreadStep, ThreadStep, ThreadStep,
           LoopRunsItem [1, 2, 3, 4, 5, 6, 7, 8, 9, 10, 11, 12, 13, 14, 15, 16],
           ThreadStep, ThreadStep, ThreadStep, ThreadStep,
           ThreadStep, ThreadStep, ThreadStep, ThreadStep,
           Call ExitFcitx, HostStep 0, HostStep 0,
           LoopRunsItem [1, 2, 3, 4, 5, 6, 7, 8, 9, 10, 11, 12, 13, 14, 15, 16],
           ThreadStep, ThreadStep,
           ExecEnds (Returned 0),
           ThreadStep, ThreadStep, ThreadStep, ThreadStep] initial_machine =
     Inl DoubleDelete
   \<and> map_sum id (\<lambda>m. (handle_view (shared m), phase m))
     (run [CallStartup ''/data/app'' ''/data/app/lib'' ''/data/ext'',
           ThreadStep, ThreadStep, ThreadStep, ThreadStep, ThreadStep,
           ThreadStep, ThreadStep, ThreadStep, ThreadStep, ThreadStep,
           ThreadStep, ThreadStep, ThreadStep, ThreadStep,
           LoopRunsItem [1, 2, 3, 4, 5, 6, 7, 8, 9, 10, 11, 12, 13, 14, 15, 16],
           ThreadStep, ThreadStep, ThreadStep, ThreadStep,
           ThreadStep, ThreadStep, ThreadStep, ThreadStep] initial_machine) =
     Inr ((True, True, True, True), InExec)
   \<and> run [CallStartup ''/data/app'' ''/data/app/lib'' ''/data/ext'',
           ThreadStep, ThreadStep, ThreadStep, ThreadStep, ThreadStep,
           ThreadStep, ThreadStep, ThreadStep, ThreadStep, ThreadStep,
           ThreadStep, ThreadStep, ThreadStep, ThreadStep,
           LoopRunsItem [1, 2, 3, 4, 5, 6, 7, 8, 9, 10, 11, 12, 13, 14, 15, 16],
           ThreadStep, ThreadStep, ThreadStep, ThreadStep,
           ThreadStep, ThreadStep, ThreadStep, ThreadStep,
           ExecEnds OtherThrow] initial_machine =
     Inl UncaughtThrow"
  by (simp add: initial_machine_def initial_globals_def prepare_stmts_def reset_stmts_def
      handle_view_def zero_uuid_eq not_running_def setenv_def jniLog_def android_log_write_def
      dispatcher_schedule_def schedule_def attach_def detach_def make_EventDispatcher_def
      make_Instance_def c_str_def)

subsection \<open>The status code\<close>

text \<open>
  C5. The specification gives the status codes 0, 1, 2 and the run loop's own code. The
  handlers of lines 151-163 compute them, and return them when the setup item never ran.
  But in a run in which the setup item has stored \<^verbatim>\<open>p_frontend\<close>, each of the three
  handlers calls the reset, which ends in the second delete of the addon: no code is
  returned, whether \<^verbatim>\<open>exec()\<close> returned 0, threw \<^verbatim>\<open>InstanceQuietQuit\<close> or threw a
  \<^verbatim>\<open>std::exception\<close>. And a throw that is not a \<^verbatim>\<open>std::exception\<close> is not caught: the
  call ends with the exception and not with the code 1.
\<close>

theorem startupFcitx_no_status_code:
  "startupFcitx (exec_session [[1, 2, 3, 4, 5, 6, 7, 8, 9, 10, 11, 12, 13, 14, 15, 16]] (Returned 0))
     ''/data/app'' ''/data/app/lib'' ''/data/ext'' initial_globals = Some (Inl DoubleDelete)
   \<and> startupFcitx
       (exec_session [[1, 2, 3, 4, 5, 6, 7, 8, 9, 10, 11, 12, 13, 14, 15, 16]] InstanceQuietQuit)
     ''/data/app'' ''/data/app/lib'' ''/data/ext'' initial_globals = Some (Inl DoubleDelete)
   \<and> startupFcitx
       (exec_session [[1, 2, 3, 4, 5, 6, 7, 8, 9, 10, 11, 12, 13, 14, 15, 16]]
          (StdException ''bad addon''))
     ''/data/app'' ''/data/app/lib'' ''/data/ext'' initial_globals = Some (Inl DoubleDelete)
   \<and> startupFcitx (exec_session [] OtherThrow)
     ''/data/app'' ''/data/app/lib'' ''/data/ext'' initial_globals = Some (Inl UncaughtThrow)
   \<and> map_option (map_sum id fst)
       (startupFcitx (exec_session [] (Returned 7))
          ''/data/app'' ''/data/app/lib'' ''/data/ext'' initial_globals) = Some (Inr 7)
   \<and> map_option (map_sum id fst)
       (startupFcitx (exec_session [] InstanceQuietQuit)
          ''/data/app'' ''/data/app/lib'' ''/data/ext'' initial_globals) = Some (Inr 0)
   \<and> map_option (map_sum id fst)
       (startupFcitx (exec_session [] (StdException ''bad addon''))
          ''/data/app'' ''/data/app/lib'' ''/data/ext'' initial_globals) = Some (Inr 1)"
  by (simp add: startupFcitx_def startup_prepare_eq initial_globals_def loop_runs_item_def
      resetGlobalPointers_eq make_Instance_def Let_def)

subsection \<open>The environment of the engine\<close>

text \<open>
  C8. A call of \<^verbatim>\<open>startupFcitx\<close> with no engine running hands to \<^verbatim>\<open>exec()\<close> the globals
  prepared by lines 75-149. In them the eight variables are set from the three paths:
  \<^verbatim>\<open>SKIP_FCITX_PATH\<close> is "true"; \<^verbatim>\<open>HOME\<close>, \<^verbatim>\<open>XDG_CONFIG_HOME\<close> and \<^verbatim>\<open>XDG_DATA_HOME\<close> are the
  external data path; \<^verbatim>\<open>XDG_DATA_DIRS\<close> is the application data path; \<^verbatim>\<open>FCITX_ADDON_DIRS\<close>
  is the library path; \<^verbatim>\<open>LIBIME_MODEL_DIRS\<close> and \<^verbatim>\<open>LIBIME_INSTALL_PKGDATADIR\<close> are the
  application data path followed by "/fcitx5/libime". The instance was constructed in
  that environment: the environment its constructor found is the final one.
\<close>

theorem startup_environment:
  assumes "p_instance g = None"
  shows "startupFcitx exec app_data app_lib ext_data g =
           (case exec (startup_prepare app_data app_lib ext_data g) of
              None \<Rightarrow> None
            | Some (r, g') \<Rightarrow> Some (startup_finish r g'))
    \<and> map_option construct_env (p_instance (startup_prepare app_data app_lib ext_data g)) =
        Some (environ (startup_prepare app_data app_lib ext_data g))
    \<and> environ (startup_prepare app_data app_lib ext_data g) ''SKIP_FCITX_PATH'' = Some ''true''
    \<and> environ (startup_prepare app_data app_lib ext_data g) ''HOME'' = Some (c_str ext_data)
    \<and> environ (startup_prepare app_data app_lib ext_data g) ''XDG_DATA_DIRS'' = Some (c_str app_data)
    \<and> environ (startup_prepare app_data app_lib ext_data g) ''XDG_CONFIG_HOME'' = Some (c_str ext_data)
    \<and> environ (startup_prepare app_data app_lib ext_data g) ''XDG_DATA_HOME'' = Some (c_str ext_data)
    \<and> environ (startup_prepare app_data app_lib ext_data g) ''FCITX_ADDON_DIRS'' = Some (c_str app_lib)
    \<and> environ (startup_prepare app_data app_lib ext_data g) ''LIBIME_MODEL_DIRS'' =
        Some (c_str app_data @ ''/fcitx5/libime'')
    \<and> environ (startup_prepare app_data app_lib ext_data g) ''LIBIME_INSTALL_PKGDATADIR'' =
        Some (c_str app_data @ ''/fcitx5/libime'')"
  using assms
  by (simp add: startupFcitx_def startup_prepare_eq startup_env_def make_Instance_def)

theorem startup_environment_witness:
  "p_instance initial_globals = None
   \<and> map_option construct_env
       (p_instance (startup_prepare ''/data/app'' ''/data/app/lib'' ''/data/ext'' initial_globals)) =
      Some (environ (startup_prepare ''/data/app'' ''/data/app/lib'' ''/data/ext'' initial_globals))
   \<and> environ (startup_prepare ''/data/app'' ''/data/app/lib'' ''/data/ext'' initial_globals)
       ''HOME'' = Some ''/data/ext''
   \<and> environ (startup_prepare ''/data/app'' ''/data/app/lib'' ''/data/ext'' initial_globals)
       ''FCITX_ADDON_DIRS'' = Some ''/data/app/lib''
   \<and> environ (startup_prepare ''/data/app'' ''/data/app/lib'' ''/data/ext'' initial_globals)
       ''LIBIME_MODEL_DIRS'' = Some ''/data/app/fcitx5/libime''"
proof -
  have h: "p_instance initial_globals = None" by (simp add: initial_globals_def)
  show ?thesis
    using h startup_environment [OF h, of "exec_session [] (Returned 0)" "''/data/app''" "''/data/app/lib''"
        "''/data/ext''"]
    by (simp add: c_str_def)
qed

subsection \<open>Notifications\<close>

text \<open>
  C7, as the code has it. For every notification whose payload has fewer than \<open>2^31\<close>
  strings, the host entry point is called with the kind of the variant (0 for a candidate
  list, 1 for a commit string, 2 for a preedit, 3 for an auxiliary text) and an array with
  one element per payload string, in the payload's order (all candidates; the one commit
  string; primary then secondary). Each element is the C string of the string the addon
  produced: its bytes before the first NUL. When no payload string holds a NUL byte, the
  array is the payload exactly. When the addon of a running engine emits the notification
  through a callback it was given, that one call is what the host receives.
\<close>

theorem notify_delivers_c_strings:
  assumes "length (payload ev) < 2 ^ 31"
  shows "notify ev = Inr (fst (spec_encoding ev), map (\<lambda>s. Some (c_str s)) (payload ev))
    \<and> ((\<forall>s \<in> set (payload ev). CHR 0x00 \<notin> set s) \<longrightarrow> notify ev = Inr (spec_encoding ev))
    \<and> ((\<exists>i. p_instance g = Some i \<and> callback_of ev \<in> set (callbacks i)) \<longrightarrow>
          addon_notifies ev g =
            g\<lparr>host_events := host_events g @
                 [(fst (spec_encoding ev), map (\<lambda>s. Some (c_str s)) (payload ev))]\<rparr>)"
proof -
  have a: "notify ev = Inr (fst (spec_encoding ev), map (\<lambda>s. Some (c_str s)) (payload ev))"
    using assms
    by (cases ev)
      (simp_all add: candidateListCallback_eq commitStringCallback_def preeditCallback_def
        inputPanelAuxCallback_def NewObjectArray_def SetObjectArrayElement_def NewStringUTF_def
        numeral_2_eq_2)
  have c: "(\<forall>s \<in> set (payload ev). CHR 0x00 \<notin> set s) \<longrightarrow> notify ev = Inr (spec_encoding ev)"
  proof
    assume h: "\<forall>s \<in> set (payload ev). CHR 0x00 \<notin> set s"
    then have "map (\<lambda>s. Some (c_str s)) (payload ev) = map Some (payload ev)"
      by (simp add: c_str_id)
    moreover have "snd (spec_encoding ev) = map Some (payload ev)"
      by (cases ev) simp_all
    ultimately show "notify ev = Inr (spec_encoding ev)"
      using a by (simp add: prod_eq_iff)
  qed
  have s: "(\<exists>i. p_instance g = Some i \<and> callback_of ev \<in> set (callbacks i)) \<longrightarrow>
          addon_notifies ev g =
            g\<lparr>host_events := host_events g @
                 [(fst (spec_encoding ev), map (\<lambda>s. Some (c_str s)) (payload ev))]\<rparr>"
    using addon_notifies_eq [OF _ _ a] by blast
  from a c s show ?thesis by blast
qed

theorem notify_delivers_c_strings_witness:
  "length (payload (CandidateList [''ni'', ''hao''])) < 2 ^ 31
   \<and> notify (CandidateList [''ni'', ''hao'']) = Inr (0, [Some ''ni'', Some ''hao''])
   \<and> notify (Preedit ''ni'' ''n'') = Inr (2, [Some ''ni'', Some ''n''])
   \<and> host_events
        (addon_notifies (CandidateList [''ni'', ''hao''])
           (projr (loop_runs_item [1, 2, 3, 4, 5, 6, 7, 8, 9, 10, 11, 12, 13, 14, 15, 16]
              (startup_prepare ''/data/app'' ''/data/app/lib'' ''/data/ext'' initial_globals)))) =
       [(0, [Some ''ni'', Some ''hao''])]"
proof -
  let ?g = "projr (loop_runs_item [1, 2, 3, 4, 5, 6, 7, 8, 9, 10, 11, 12, 13, 14, 15, 16]
              (startup_prepare ''/data/app'' ''/data/app/lib'' ''/data/ext'' initial_globals))"
  have h: "length (payload (CandidateList [''ni'', ''hao''])) < 2 ^ 31" by simp
  have n: "\<forall>s \<in> set (payload (CandidateList [''ni'', ''hao''])). CHR 0x00 \<notin> set s" by simp
  have h': "length (payload (Preedit ''ni'' ''n'')) < 2 ^ 31" by simp
  have n': "\<forall>s \<in> set (payload (Preedit ''ni'' ''n'')). CHR 0x00 \<notin> set s" by simp
  have r: "\<exists>i. p_instance ?g = Some i
             \<and> callback_of (CandidateList [''ni'', ''hao'']) \<in> set (callbacks i)"
    by (simp add: loop_runs_item_def startup_prepare_eq initial_globals_def make_Instance_def
        Let_def)
  have e: "host_events ?g = []"
    by (simp add: loop_runs_item_def startup_prepare_eq initial_globals_def make_Instance_def
        Let_def)
  from notify_delivers_c_strings [OF h, of ?g] n r
  have "notify (CandidateList [''ni'', ''hao'']) = Inr (0, [Some ''ni'', Some ''hao''])"
    and "host_events (addon_notifies (CandidateList [''ni'', ''hao'']) ?g) =
       [(0, [Some ''ni'', Some ''hao''])]"
    using e by (simp_all add: c_str_def)
  moreover from notify_delivers_c_strings [OF h', of ?g] n'
  have "notify (Preedit ''ni'' ''n'') = Inr (2, [Some ''ni'', Some ''n''])"
    by (simp add: c_str_def)
  ultimately show ?thesis using h by simp
qed

text \<open>
  The sentence of the specification fails as worded: a commit string with a NUL byte in it
  reaches the host cut at that byte.
\<close>

theorem notify_truncates_at_NUL:
  "notify (CommitString [CHR ''a'', CHR 0x00, CHR ''b'']) = Inr (1, [Some ''a''])
   \<and> spec_encoding (CommitString [CHR ''a'', CHR 0x00, CHR ''b'']) =
       (1, [Some [CHR ''a'', CHR 0x00, CHR ''b'']])"
  by (simp add: commitStringCallback_def NewObjectArray_def SetObjectArrayElement_def
      NewStringUTF_def c_str_def)

subsection \<open>The log relay\<close>

text \<open>
  C9, as the code has it. Each \<^verbatim>\<open>read\<close> that returns bytes is forwarded as exactly one
  message under the label "fcitx5", in order: the bytes read, without one trailing newline,
  up to the first NUL byte. The buffers read are consecutive pieces of the stream, each of
  1 to 127 bytes, and the relay stops at the first \<^verbatim>\<open>read\<close> that returns nothing. It does
  not split at a newline inside what one \<^verbatim>\<open>read\<close> returned, and does not join a line that
  arrives in two reads. When the bytes "hello" and a newline are what one \<^verbatim>\<open>read\<close>
  returns, the line "hello" is forwarded exactly once.
\<close>

theorem logger_thread_forwards_each_read:
  "logger_thread reads pipe sink =
     sink @ map (\<lambda>buf. (ANDROID_LOG_DEBUG, ''fcitx5'',
                         c_str (if last buf = CHR 0x0A then butlast buf else buf)))
                (reads_of reads pipe)
   \<and> (\<exists>rest. pipe = concat (reads_of reads pipe) @ rest)
   \<and> (\<forall>buf \<in> set (reads_of reads pipe). 0 < length buf \<and> length buf \<le> 127)
   \<and> logger_thread ((6 + k) # later) ''hello\<newline>'' sink =
       sink @ [(ANDROID_LOG_DEBUG, ''fcitx5'', ''hello'')]"
proof -
  have m: "min (6 + k) 127 \<ge> 6" by simp
  have t: "take (min (6 + k) 127) ''hello\<newline>'' = ''hello\<newline>''" using m by simp
  have d: "drop (min (6 + k) 127) ''hello\<newline>'' = []" using m by simp
  have "reads_of ((6 + k) # later) ''hello\<newline>'' = [''hello\<newline>'']"
    by (cases later) (simp_all add: read_pipe_def t d)
  then have "logger_thread ((6 + k) # later) ''hello\<newline>'' sink =
       sink @ [(ANDROID_LOG_DEBUG, ''fcitx5'', ''hello'')]"
    by (simp add: logger_thread_reads_of c_str_def del: logger_thread.simps reads_of.simps)
  then show ?thesis
    using logger_thread_reads_of [of reads pipe sink] reads_of_prefix [of pipe reads]
      reads_of_bounds [of _ reads pipe]
    by blast
qed

theorem logger_thread_forwards_each_read_witness:
  "logger_thread [3, 200] ''ab\<newline>cd'' [] =
     [(ANDROID_LOG_DEBUG, ''fcitx5'', ''ab''), (ANDROID_LOG_DEBUG, ''fcitx5'', ''cd'')]
   \<and> reads_of [3, 200] ''ab\<newline>cd'' = [''ab\<newline>'', ''cd'']
   \<and> logger_thread [6] ''hello\<newline>'' [] = [(ANDROID_LOG_DEBUG, ''fcitx5'', ''hello'')]"
  using logger_thread_forwards_each_read [of "[3, 200]" "''ab\<newline>cd''" "[]" 0 "[]"]
  by (simp add: read_pipe_def relay_buffer_def android_log_write_def c_str_def)

text \<open>
  The sentence of the specification fails as worded: two lines that one \<^verbatim>\<open>read\<close> returns
  together are forwarded as one message with the newline inside it, where splitting on
  newlines gives two; and a line that arrives in two reads is forwarded as two messages.
\<close>

theorem logger_thread_not_line_split:
  "logger_thread [4] ''a\<newline>b\<newline>'' [] = [(ANDROID_LOG_DEBUG, ''fcitx5'', ''a\<newline>b'')]
   \<and> spec_relay ''a\<newline>b\<newline>'' =
       [(ANDROID_LOG_DEBUG, ''fcitx5'', ''a''), (ANDROID_LOG_DEBUG, ''fcitx5'', ''b'')]
   \<and> logger_thread [3, 3] ''hello\<newline>'' [] =
       [(ANDROID_LOG_DEBUG, ''fcitx5'', ''hel''), (ANDROID_LOG_DEBUG, ''fcitx5'', ''lo'')]"
  by (simp add: read_pipe_def relay_buffer_def android_log_write_def c_str_def spec_relay_def)

subsection \<open>The key of a single character\<close>

text \<open>
  C10, as the code has it. \<^verbatim>\<open>sendKeyToFcitxChar\<close> reads the two bytes of the \<^verbatim>\<open>jchar\<close>, low
  byte first, as a C string. For a code unit below 256 it does what
  \<^verbatim>\<open>sendKeyToFcitxString\<close> does on the one-byte string of that value. For a code unit whose
  low byte is zero (0, and also 0x100, 0x200, ...) the low byte is the terminator and the
  descriptor is empty, whatever follows in memory. For a code unit of 256 or more whose
  low byte is not zero, both bytes are read and the reading goes on into the memory after
  the parameter, up to the first NUL there.
\<close>

theorem sendKeyToFcitxChar_descriptor:
  "(unat c < 256 \<longrightarrow> sendKeyToFcitxChar c mem g = sendKeyToFcitxString [char_of (unat c)] g)
   \<and> (unat c mod 256 = 0 \<longrightarrow> jchar_as_c_str c mem = [])
   \<and> (256 \<le> unat c \<and> unat c mod 256 \<noteq> 0 \<longrightarrow>
        jchar_as_c_str c mem = char_of (unat c mod 256) # char_of (unat c div 256) # c_str mem)"
proof (intro conjI impI)
  assume lt: "unat c < 256"
  then have "jchar_as_c_str c mem = c_str [char_of (unat c)]"
    by (simp add: jchar_as_c_str_def jchar_bytes_def c_str_def char_of_nat_NUL_iff)
  then show "sendKeyToFcitxChar c mem g = sendKeyToFcitxString [char_of (unat c)] g"
    by (simp add: sendKeyToFcitxChar_def sendKeyToFcitxString_def)
next
  assume "unat c mod 256 = 0"
  then show "jchar_as_c_str c mem = []"
    by (simp add: jchar_as_c_str_def jchar_bytes_def c_str_def char_of_nat_NUL_iff)
next
  assume h: "256 \<le> unat c \<and> unat c mod 256 \<noteq> 0"
  have hi: "unat c div 256 < 256" by (rule jchar_high_byte)
  from h have "unat c div 256 \<noteq> 0" by (simp add: div_greater_zero_iff)
  with hi have "(unat c div 256) mod 256 \<noteq> 0" by simp
  with h show "jchar_as_c_str c mem = char_of (unat c mod 256) # char_of (unat c div 256) # c_str mem"
    by (simp add: jchar_as_c_str_def jchar_bytes_def c_str_def char_of_nat_NUL_iff)
qed

theorem sendKeyToFcitxChar_descriptor_witness:
  "sendKeyToFcitxChar 0x41 ''xyz''
     (initial_globals\<lparr>p_instance := Some (make_Instance Map.empty),
        p_dispatcher := Some (attach make_EventDispatcher), p_frontend := Some AndroidFrontend\<rparr>) =
   sendKeyToFcitxString ''A''
     (initial_globals\<lparr>p_instance := Some (make_Instance Map.empty),
        p_dispatcher := Some (attach make_EventDispatcher), p_frontend := Some AndroidFrontend\<rparr>)
   \<and> jchar_as_c_str 0x4E00 ''xyz'' = []
   \<and> jchar_as_c_str 0x4E2D ''xyz'' = [CHR 0x2D, CHR 0x4E, CHR ''x'', CHR ''y'', CHR ''z'']"
proof -
  have a: "unat (0x41 :: 16 word) < 256" by simp
  have b: "unat (0x4E00 :: 16 word) mod 256 = 0" by simp
  have c: "256 \<le> unat (0x4E2D :: 16 word) \<and> unat (0x4E2D :: 16 word) mod 256 \<noteq> 0" by simp
  have d: "char_of (65 :: nat) = CHR ''A''" by (simp add: char_of_eq_iff)
  show ?thesis
    using a b c
      sendKeyToFcitxChar_descriptor [of "0x41" "''xyz''" "initial_globals\<lparr>p_instance := Some (make_Instance Map.empty),
        p_dispatcher := Some (attach make_EventDispatcher), p_frontend := Some AndroidFrontend\<rparr>"]
      sendKeyToFcitxChar_descriptor [of "0x4E00" "''xyz''" initial_globals]
      sendKeyToFcitxChar_descriptor [of "0x4E2D" "''xyz''" initial_globals]
    by (simp add: d char_of_eq_iff c_str_def)
qed

text \<open>
  The sentence of the specification fails as worded at the code unit 0x100: it is not below
  256, its low byte is the NUL terminator, and the descriptor read is empty for any memory
  after it.
\<close>

theorem sendKeyToFcitxChar_zero_low_byte:
  "(256::nat) \<le> unat (0x100 :: 16 word)
   \<and> jchar_bytes 0x100 = [CHR 0x00, CHR 0x01]
   \<and> jchar_as_c_str 0x100 ''AB'' = []
   \<and> jchar_as_c_str 0x100 ''C'' = []"
  by (simp add: jchar_as_c_str_def jchar_bytes_def c_str_def char_of_eq_iff)

end
